theory Spec2Isabelle
  imports Main
begin

section \<open>Values of the Python program\<close>

text \<open>
  The orchestrator of \<^verbatim>\<open>semantic_kernel_orchestrator.py\<close> reads the replies of its agents
  as JSON. A decoded JSON document is a value of \<open>json\<close>: a Python \<^verbatim>\<open>dict\<close> is an
  association list in insertion order, \<^verbatim>\<open>None\<close> is \<open>JNull\<close>. A number that is not an
  integer keeps its lexeme: the program never computes with numbers.
\<close>

datatype json =
    JNull
  | JBool bool
  | JInt int
  | JFloat string
  | JString string
  | JArray "json list"
  | JObject "(string \<times> json) list"

text \<open>
  The exceptions the program can meet. All of them are subclasses of Python's
  \<^verbatim>\<open>Exception\<close>, the class the handlers of the program name. \<open>ValidationError\<close> is
  pydantic's, raised by the constructor of a model on a field of the wrong type;
  \<open>OtherError\<close> is any other such exception raised by a library call, with its message.
\<close>

datatype py_exn =
    JSONDecodeError
  | AttributeError
  | KeyError
  | TypeError
  | IndexError
  | TimeoutError
  | ValueError
  | RecursionError
  | ValidationError
  | OtherError string

text \<open>
  \<^verbatim>\<open>json.loads\<close> belongs to Python's standard library. The functions below take the
  decoder as their first argument \<open>loads\<close>. It returns the decoded value or raises:
  \<^verbatim>\<open>json.JSONDecodeError\<close> on text that is not JSON, and also \<^verbatim>\<open>ValueError\<close> on an
  integer literal of more than 4300 digits and \<^verbatim>\<open>RecursionError\<close> on a document nested
  too deep. A handler that names \<^verbatim>\<open>json.JSONDecodeError\<close> catches the first only.
\<close>

type_synonym decoder = "string \<Rightarrow> py_exn + json"

text \<open>\<^verbatim>\<open>parsed.get(key)\<close>: only a \<^verbatim>\<open>dict\<close> has the method; a missing key gives \<^verbatim>\<open>None\<close>.\<close>

fun py_get :: "json \<Rightarrow> string \<Rightarrow> py_exn + json" where
  "py_get (JObject kv) k = Inr (case map_of kv k of None \<Rightarrow> JNull | Some v \<Rightarrow> v)"
| "py_get _ k = Inl AttributeError"

text \<open>
  \<^verbatim>\<open>value[key]\<close> and \<^verbatim>\<open>value[0]\<close>. A \<^verbatim>\<open>dict\<close> decoded from JSON has string keys only,
  so the key \<^verbatim>\<open>0\<close> is never present; a \<^verbatim>\<open>str\<close> indexed at \<^verbatim>\<open>0\<close> gives its first
  character as a \<^verbatim>\<open>str\<close>.
\<close>

datatype subscript = Key string | Index0

fun py_getitem :: "json \<Rightarrow> subscript \<Rightarrow> py_exn + json" where
  "py_getitem (JObject kv) (Key k) =
     (case map_of kv k of None \<Rightarrow> Inl KeyError | Some v \<Rightarrow> Inr v)"
| "py_getitem (JObject kv) Index0 = Inl KeyError"
| "py_getitem (JArray xs) Index0 =
     (case xs of [] \<Rightarrow> Inl IndexError | x # _ \<Rightarrow> Inr x)"
| "py_getitem (JArray xs) (Key k) = Inl TypeError"
| "py_getitem (JString s) Index0 =
     (case s of [] \<Rightarrow> Inl IndexError | c # _ \<Rightarrow> Inr (JString [c]))"
| "py_getitem (JString s) (Key k) = Inl TypeError"
| "py_getitem _ _ = Inl TypeError"

text \<open>A chain of subscripts, left to right; the first failure ends it.\<close>

fun py_path :: "json \<Rightarrow> subscript list \<Rightarrow> py_exn + json" where
  "py_path v [] = Inr v"
| "py_path v (s # ss) =
     (case py_getitem v s of Inl e \<Rightarrow> Inl e | Inr w \<Rightarrow> py_path w ss)"

text \<open>\<^verbatim>\<open>value == "text"\<close> on a decoded value: only an equal \<^verbatim>\<open>str\<close> compares equal.\<close>

definition py_eq_str :: "json \<Rightarrow> string \<Rightarrow> bool" where
  "py_eq_str v s = (v = JString s)"

section \<open>A decoder for concrete documents\<close>

text \<open>
  To run the functions on concrete replies, \<open>json_loads\<close> follows the scanner of Python's
  \<^verbatim>\<open>json\<close> module (\<^verbatim>\<open>json.decoder\<close>, \<^verbatim>\<open>json.scanner\<close>) on byte strings: white space,
  the literals, numbers, strings with the one-letter escapes, arrays and objects, a later
  duplicate key replacing the value of the earlier one, \<^verbatim>\<open>ValueError\<close> on an integer
  literal of more than 4300 digits. It leaves out the \<^verbatim>\<open>\uXXXX\<close> escape, which it
  rejects, and \<^verbatim>\<open>RecursionError\<close>. The general lemmas and theorems of this theory hold
  for every decoder; \<open>json_loads\<close> only instantiates them.
\<close>

definition is_ws :: "char \<Rightarrow> bool" where
  "is_ws c = (c = CHR '' '' \<or> c = CHR 0x09 \<or> c = CHR 0x0A \<or> c = CHR 0x0D)"

definition skip_ws :: "string \<Rightarrow> string" where
  "skip_ws cs = dropWhile is_ws cs"

definition is_digit :: "char \<Rightarrow> bool" where
  "is_digit c = (48 \<le> (of_char c :: nat) \<and> (of_char c :: nat) \<le> 57)"

definition starts_with :: "string \<Rightarrow> string \<Rightarrow> bool" where
  "starts_with p cs = (take (length p) cs = p)"

text \<open>\<^verbatim>\<open>d[k] = v\<close> on a \<^verbatim>\<open>dict\<close>: a key already present keeps its place.\<close>

fun dict_setitem :: "(string \<times> json) list \<Rightarrow> string \<Rightarrow> json \<Rightarrow> (string \<times> json) list" where
  "dict_setitem [] k v = [(k, v)]"
| "dict_setitem (p # ps) k v = (if fst p = k then (k, v) # ps else p # dict_setitem ps k v)"

definition unescape :: "char \<Rightarrow> char option" where
  "unescape c =
     (if c = CHR 0x22 \<or> c = CHR 0x5C \<or> c = CHR ''/'' then Some c
      else if c = CHR ''b'' then Some (CHR 0x08)
      else if c = CHR ''f'' then Some (CHR 0x0C)
      else if c = CHR ''n'' then Some (CHR 0x0A)
      else if c = CHR ''r'' then Some (CHR 0x0D)
      else if c = CHR ''t'' then Some (CHR 0x09)
      else None)"

text \<open>The body of a string, after its opening quote; control characters are refused.\<close>

fun scan_string :: "string \<Rightarrow> string \<Rightarrow> (string \<times> string) option" where
  "scan_string acc [] = None"
| "scan_string acc [c] = (if c = CHR 0x22 then Some (rev acc, []) else None)"
| "scan_string acc (c # d # cs) =
     (if c = CHR 0x22 then Some (rev acc, d # cs)
      else if c = CHR 0x5C then
        (case unescape d of None \<Rightarrow> None | Some u \<Rightarrow> scan_string (u # acc) cs)
      else if (of_char c :: nat) < 32 then None
      else scan_string (c # acc) (d # cs))"

definition digits_value :: "string \<Rightarrow> int" where
  "digits_value ds = foldl (\<lambda>n c. 10 * n + (int (of_char c) - 48)) 0 ds"

text \<open>
  A number, by the pattern \<^verbatim>\<open>(-?(?:0|[1-9][0-9]*))(\.[0-9]+)?([eE][-+]?[0-9]+)?\<close>: an
  integer when it has neither fraction nor exponent, and then \<^verbatim>\<open>int\<close> refuses more than
  4300 digits. \<open>None\<close>: no number starts here.
\<close>

definition scan_number :: "string \<Rightarrow> (py_exn + json \<times> string) option" where
  "scan_number cs =
     (let neg = starts_with ''-'' cs;
          r0 = (if neg then tl cs else cs);
          ds = (if starts_with ''0'' r0 then ''0'' else takeWhile is_digit r0);
          r1 = drop (length ds) r0;
          fs = (if starts_with ''.'' r1 then takeWhile is_digit (tl r1) else []);
          frac = (if fs = [] then [] else CHR ''.'' # fs);
          r2 = drop (length frac) r1;
          e0 = (if starts_with ''e'' r2 \<or> starts_with ''E'' r2 then tl r2 else []);
          sg = (if starts_with ''+'' e0 \<or> starts_with ''-'' e0 then take 1 e0 else []);
          es = takeWhile is_digit (drop (length sg) e0);
          ex = (if es = [] then [] else take 1 r2 @ sg @ es);
          r3 = drop (length ex) r2
      in if ds = [] then None
         else if frac = [] \<and> ex = [] then
           (if length ds > 4300 then Some (Inl ValueError)
            else Some (Inr (JInt (if neg then - digits_value ds else digits_value ds), r3)))
         else Some (Inr (JFloat ((if neg then ''-'' else []) @ ds @ frac @ ex), r3)))"

text \<open>
  The descent, with fuel: every second call consumes a character, so twice the length
  of the document is enough.
\<close>

fun parse_value :: "nat \<Rightarrow> string \<Rightarrow> py_exn + json \<times> string"
  and parse_elements :: "nat \<Rightarrow> json list \<Rightarrow> string \<Rightarrow> py_exn + json \<times> string"
  and parse_members :: "nat \<Rightarrow> (string \<times> json) list \<Rightarrow> string \<Rightarrow> py_exn + json \<times> string"
where
  "parse_value 0 cs = Inl JSONDecodeError"
| "parse_value (Suc n) cs =
     (case cs of
        [] \<Rightarrow> Inl JSONDecodeError
      | c # r \<Rightarrow>
          if c = CHR 0x22 then
            (case scan_string [] r of
               None \<Rightarrow> Inl JSONDecodeError
             | Some (s, r') \<Rightarrow> Inr (JString s, r'))
          else if c = CHR ''{'' then
            (case skip_ws r of
               [] \<Rightarrow> Inl JSONDecodeError
             | d # r' \<Rightarrow>
                 if d = CHR ''}'' then Inr (JObject [], r')
                 else if d = CHR 0x22 then parse_members n [] r'
                 else Inl JSONDecodeError)
          else if c = CHR ''['' then
            (case skip_ws r of
               [] \<Rightarrow> Inl JSONDecodeError
             | d # r' \<Rightarrow>
                 if d = CHR '']'' then Inr (JArray [], r')
                 else parse_elements n [] (d # r'))
          else if starts_with ''null'' cs then Inr (JNull, drop 4 cs)
          else if starts_with ''true'' cs then Inr (JBool True, drop 4 cs)
          else if starts_with ''false'' cs then Inr (JBool False, drop 5 cs)
          else
            (case scan_number cs of
               Some x \<Rightarrow> x
             | None \<Rightarrow>
                 if starts_with ''NaN'' cs then Inr (JFloat ''NaN'', drop 3 cs)
                 else if starts_with ''Infinity'' cs then Inr (JFloat ''Infinity'', drop 8 cs)
                 else if starts_with ''-Infinity'' cs then Inr (JFloat ''-Infinity'', drop 9 cs)
                 else Inl JSONDecodeError))"
| "parse_elements 0 acc cs = Inl JSONDecodeError"
| "parse_elements (Suc n) acc cs =
     (case parse_value n cs of
        Inl e \<Rightarrow> Inl e
      | Inr (v, r) \<Rightarrow>
          (case skip_ws r of
             [] \<Rightarrow> Inl JSONDecodeError
           | d # r' \<Rightarrow>
               if d = CHR '']'' then Inr (JArray (acc @ [v]), r')
               else if d = CHR '','' then parse_elements n (acc @ [v]) (skip_ws r')
               else Inl JSONDecodeError))"
| "parse_members 0 acc cs = Inl JSONDecodeError"
| "parse_members (Suc n) acc cs =
     (case scan_string [] cs of
        None \<Rightarrow> Inl JSONDecodeError
      | Some (k, r) \<Rightarrow>
          (case skip_ws r of
             [] \<Rightarrow> Inl JSONDecodeError
           | d # r1 \<Rightarrow>
               if d \<noteq> CHR '':'' then Inl JSONDecodeError
               else
                 (case parse_value n (skip_ws r1) of
                    Inl e \<Rightarrow> Inl e
                  | Inr (v, r2) \<Rightarrow>
                      (case skip_ws r2 of
                         [] \<Rightarrow> Inl JSONDecodeError
                       | e # r3 \<Rightarrow>
                           if e = CHR ''}'' then Inr (JObject (dict_setitem acc k v), r3)
                           else if e = CHR '','' then
                             (case skip_ws r3 of
                                [] \<Rightarrow> Inl JSONDecodeError
                              | q # r4 \<Rightarrow>
                                  if q = CHR 0x22 then parse_members n (dict_setitem acc k v) r4
                                  else Inl JSONDecodeError)
                           else Inl JSONDecodeError))))"

definition json_loads :: decoder where
  "json_loads s =
     (case parse_value (2 * length s + 2) (skip_ws s) of
        Inl e \<Rightarrow> Inl e
      | Inr (v, r) \<Rightarrow> if skip_ws r = [] then Inr v else Inl JSONDecodeError)"

section \<open>Chat messages\<close>

datatype author_role = SYSTEM | USER | ASSISTANT | TOOL | DEVELOPER

record chat_message =
  role :: author_role
  name :: "string option"
  content :: string

text \<open>
  A \<^verbatim>\<open>ChatHistory\<close> is false when it has no message; a message object is always true, so
  \<^verbatim>\<open>not last_message\<close> holds for \<^verbatim>\<open>None\<close> only.
\<close>

type_synonym chat_history = "chat_message list"

text \<open>
  \<^verbatim>\<open>participant_descriptions\<close> is a \<^verbatim>\<open>dict\<close> from agent name to description;
  \<^verbatim>\<open>.keys()\<close> lists the names in insertion order.
\<close>

type_synonym participants = "(string \<times> string) list"

definition keys :: "participants \<Rightarrow> string list" where
  "keys ps = map fst ps"

text \<open>\<^verbatim>\<open>next((agent for agent in d.keys() if agent == x), None)\<close>\<close>

definition next_agent :: "participants \<Rightarrow> json \<Rightarrow> string option" where
  "next_agent ps x = find (\<lambda>agent. JString agent = x) (keys ps)"

section \<open>CustomGroupChatManager\<close>

record message_result =
  result :: chat_message
  reason :: string

definition filter_results :: "chat_history \<Rightarrow> message_result" where
  "filter_results chat_history =
     (if chat_history = [] then
        \<lparr>result = \<lparr>role = ASSISTANT, name = None, content = ''No messages in chat history.''\<rparr>,
         reason = ''Chat history is empty.''\<rparr>
      else
        \<lparr>result = \<lparr>role = ASSISTANT, name = None, content = content (last chat_history)\<rparr>,
         reason = ''Returning the last agent's response.''\<rparr>)"

text \<open>
  \<^verbatim>\<open>StringResult(result=..., reason=...)\<close>: the model of Semantic Kernel declares the field
  \<^verbatim>\<open>result: str\<close>, so the constructor raises \<^verbatim>\<open>ValidationError\<close> on \<^verbatim>\<open>result=None\<close>.
  The reason, always a text, is left out: the \<open>Inr\<close> value is the result.
\<close>

definition StringResult :: "string option \<Rightarrow> py_exn + string" where
  "StringResult r = (case r of None \<Rightarrow> Inl ValidationError | Some a \<Rightarrow> Inr a)"

text \<open>
  \<^verbatim>\<open>format_agent_response(response)\<close> prints and returns \<^verbatim>\<open>response.content\<close>. Its handler
  names \<^verbatim>\<open>json.JSONDecodeError\<close> only: any other exception of \<^verbatim>\<open>json.loads\<close> leaves the
  function, and so does, on \<^verbatim>\<open>None\<close>, the \<^verbatim>\<open>AttributeError\<close> of \<^verbatim>\<open>response.content\<close>.
\<close>

definition format_agent_response :: "decoder \<Rightarrow> chat_message option \<Rightarrow> py_exn + string" where
  "format_agent_response loads response =
     (case response of
        None \<Rightarrow> Inl AttributeError
      | Some m \<Rightarrow>
          (case loads (content m) of
             Inl e \<Rightarrow> if e = JSONDecodeError then Inr (content m) else Inl e
           | Inr _ \<Rightarrow> Inr (content m)))"

text \<open>\<^verbatim>\<open>chat_history[-1] if chat_history else None\<close>\<close>

definition last_message_of :: "chat_history \<Rightarrow> chat_message option" where
  "last_message_of chat_history = (if chat_history = [] then None else Some (last chat_history))"

text \<open>The intent of a CLU result, read for the log before the routing decision.\<close>

definition intent_path :: "subscript list" where
  "intent_path = [Key ''response'', Key ''result'', Key ''conversations'', Index0,
                  Key ''intents'', Index0, Key ''name'']"

text \<open>
  The branch of \<^verbatim>\<open>select_next_agent\<close> for a user message (or no message). On the first
  turn the \<^verbatim>\<open>return\<close> stands in a \<^verbatim>\<open>try\<close> whose handler builds
  \<^verbatim>\<open>StringResult(result=None, ...)\<close> in its turn. In
  \<^verbatim>\<open>if last_agent and last_agent in participant_descriptions\<close>, \<^verbatim>\<open>None\<close> and the empty
  name are false.
\<close>

definition select_after_user :: "chat_history \<Rightarrow> participants \<Rightarrow> py_exn + string" where
  "select_after_user chat_history ps =
     (if length chat_history = 1 then
        (case StringResult (next_agent ps (JString ''TriageAgent'')) of
           Inr r \<Rightarrow> Inr r
         | Inl e \<Rightarrow> StringResult None)
      else
        (let last_agent =
               (if length chat_history > 1 then name (chat_history ! (length chat_history - 2))
                else None)
         in case last_agent of
              None \<Rightarrow> StringResult None
            | Some a \<Rightarrow>
                if a \<noteq> [] \<and> a \<in> set (keys ps) then StringResult (Some a)
                else StringResult None))"

text \<open>
  The \<^verbatim>\<open>try\<close> block for a reply of TriageAgent. \<open>Inr (Some r)\<close>: the block returns the
  result \<open>r\<close>; \<open>Inr None\<close>: the block ends without \<^verbatim>\<open>return\<close> (the tag is neither
  \<^verbatim>\<open>cqa_result\<close> nor \<^verbatim>\<open>clu_result\<close>); \<open>Inl e\<close>: the exception \<open>e\<close> goes to the handler.
\<close>

definition triage_try :: "decoder \<Rightarrow> chat_message \<Rightarrow> participants \<Rightarrow> py_exn + string option" where
  "triage_try loads m ps =
     (case loads (content m) of
        Inl e \<Rightarrow> Inl e
      | Inr parsed \<Rightarrow>
          (case py_get parsed ''type'' of
             Inl e \<Rightarrow> Inl e
           | Inr t \<Rightarrow>
               if py_eq_str t ''cqa_result'' then
                 (case StringResult None of Inl e \<Rightarrow> Inl e | Inr r \<Rightarrow> Inr (Some r))
               else if py_eq_str t ''clu_result'' then
                 (case py_path parsed intent_path of
                    Inl e \<Rightarrow> Inl e
                  | Inr intent \<Rightarrow>
                      (case StringResult (next_agent ps (JString ''HeadSupportAgent'')) of
                         Inl e \<Rightarrow> Inl e
                       | Inr r \<Rightarrow> Inr (Some r)))
               else Inr None))"

text \<open>
  The branch for a reply of TriageAgent: the handler (\<^verbatim>\<open>except Exception\<close>) and the default
  case after the chain both build \<^verbatim>\<open>StringResult(result=None, ...)\<close>.
\<close>

definition select_after_triage :: "decoder \<Rightarrow> chat_message \<Rightarrow> participants \<Rightarrow> py_exn + string" where
  "select_after_triage loads m ps =
     (case triage_try loads m ps of
        Inl e \<Rightarrow> StringResult None
      | Inr (Some r) \<Rightarrow> Inr r
      | Inr None \<Rightarrow> StringResult None)"

text \<open>The \<^verbatim>\<open>try\<close> block for a reply of HeadSupportAgent, and the branch with its handler.\<close>

definition head_try :: "decoder \<Rightarrow> chat_message \<Rightarrow> participants \<Rightarrow> py_exn + string" where
  "head_try loads m ps =
     (case loads (content m) of
        Inl e \<Rightarrow> Inl e
      | Inr parsed \<Rightarrow>
          (case py_get parsed ''target_agent'' of
             Inl e \<Rightarrow> Inl e
           | Inr route \<Rightarrow> StringResult (next_agent ps route)))"

definition select_after_head :: "decoder \<Rightarrow> chat_message \<Rightarrow> participants \<Rightarrow> py_exn + string" where
  "select_after_head loads m ps =
     (case head_try loads m ps of
        Inl e \<Rightarrow> StringResult None
      | Inr r \<Rightarrow> Inr r)"

text \<open>
  \<^verbatim>\<open>select_next_agent\<close>: \<open>Inr r\<close> is the \<^verbatim>\<open>StringResult\<close> returned, with result \<open>r\<close>; \<open>Inl e\<close>
  is an exception that leaves the method. The default case builds
  \<^verbatim>\<open>StringResult(result=None, ...)\<close>.
\<close>

definition select_next_agent ::
  "decoder \<Rightarrow> chat_history \<Rightarrow> participants \<Rightarrow> py_exn + string" where
  "select_next_agent loads chat_history ps =
     (let last_message = last_message_of chat_history in
      case format_agent_response loads last_message of
        Inl e \<Rightarrow> Inl e
      | Inr _ \<Rightarrow>
          (case last_message of
             None \<Rightarrow> select_after_user chat_history ps
           | Some m \<Rightarrow>
               if role m = USER then select_after_user chat_history ps
               else if name m = Some ''TriageAgent'' then select_after_triage loads m ps
               else if name m = Some ''HeadSupportAgent'' then select_after_head loads m ps
               else StringResult None))"

text \<open>
  \<^verbatim>\<open>should_terminate\<close>: the handler names \<^verbatim>\<open>json.JSONDecodeError\<close> only, so any other
  exception of \<^verbatim>\<open>json.loads\<close>, and the \<^verbatim>\<open>AttributeError\<close> of \<^verbatim>\<open>.get\<close> on a decoded value
  that is not a \<^verbatim>\<open>dict\<close>, leave the function.
\<close>

definition should_terminate :: "decoder \<Rightarrow> chat_history \<Rightarrow> py_exn + bool" where
  "should_terminate loads chat_history =
     (case last_message_of chat_history of
        None \<Rightarrow> Inr False
      | Some m \<Rightarrow>
          (case loads (content m) of
             Inl e \<Rightarrow> if e = JSONDecodeError then Inr False else Inl e
           | Inr parsed_content \<Rightarrow>
               (case py_get parsed_content ''terminated'' of
                  Inl e \<Rightarrow> Inl e
                | Inr t \<Rightarrow>
                    (case py_get parsed_content ''need_more_info'' of
                       Inl e \<Rightarrow> Inl e
                     | Inr n \<Rightarrow>
                         Inr (py_eq_str t ''True'' \<or> py_eq_str n ''True'')))))"

section \<open>SemanticKernelOrchestrator.process_message\<close>

text \<open>
  One pass of the \<^verbatim>\<open>while\<close> loop makes three calls into the Semantic Kernel library:
  \<^verbatim>\<open>self.orchestration.invoke(task, runtime)\<close>, \<^verbatim>\<open>orchestration_result.get(timeout=35)\<close>
  and \<^verbatim>\<open>runtime.stop_when_idle()\<close>. Each returns or raises; a timeout is the exception
  \<open>TimeoutError\<close> of \<^verbatim>\<open>get\<close>. An \<open>attempt\<close> records what the three calls do for one
  runtime, and a \<open>world\<close> gives it for every runtime by the order of creation.
  \<^verbatim>\<open>get\<close> returns the message of \<open>filter_results\<close>; \<open>get_outcome\<close> keeps its content.
  \<^verbatim>\<open>InProcessRuntime()\<close>, \<^verbatim>\<open>runtime.start()\<close> and \<^verbatim>\<open>asyncio.sleep(1)\<close> are taken to return.
\<close>

record attempt =
  invoke_outcome :: "py_exn + unit"
  get_outcome :: "py_exn + string"
  stop_outcome :: "py_exn option"

type_synonym world = "nat \<Rightarrow> attempt"

text \<open>What the function does to the outside, in order.\<close>

datatype event =
    RuntimeCreated nat
  | RuntimeStarted nat
  | Invoked string nat
  | ResultAwaited nat
  | ExceptionLogged py_exn
  | StopWhenIdle nat
  | ShutdownErrorLogged py_exn
  | Slept

text \<open>
  How the call ends. \<open>ReturnedError e\<close> is the \<^verbatim>\<open>dict\<close>
  \<^verbatim>\<open>{"error": f"An error occurred: {last_exception}"}\<close> with \<^verbatim>\<open>last_exception\<close> built from
  \<^verbatim>\<open>str(e)\<close>; \<open>ReturnedNone\<close> is the end of the body without a \<^verbatim>\<open>return\<close>; \<open>Raised e\<close> is
  an exception that reaches the caller.
\<close>

datatype outcome = Returned json | ReturnedError py_exn | ReturnedNone | Raised py_exn

text \<open>The statements of the inner \<^verbatim>\<open>try\<close> after \<^verbatim>\<open>get\<close>: decode the content, pick the answer.\<close>

definition final_response :: "decoder \<Rightarrow> string \<Rightarrow> py_exn + json" where
  "final_response loads c =
     (case loads c of
        Inl e \<Rightarrow> Inl e
      | Inr parsed \<Rightarrow>
          (case py_get parsed ''type'' of
             Inl e \<Rightarrow> Inl e
           | Inr t \<Rightarrow>
               if py_eq_str t ''cqa_result'' then
                 py_path parsed [Key ''response'', Key ''answers'', Index0, Key ''answer'']
               else py_getitem parsed (Key ''response'')))"

definition await_result :: "decoder \<Rightarrow> attempt \<Rightarrow> py_exn + json" where
  "await_result loads a =
     (case get_outcome a of Inl e \<Rightarrow> Inl e | Inr c \<Rightarrow> final_response loads c)"

text \<open>The \<^verbatim>\<open>finally\<close> block: an exception of \<^verbatim>\<open>stop_when_idle\<close> is printed and dropped.\<close>

definition stop_runtime :: "attempt \<Rightarrow> nat \<Rightarrow> event list" where
  "stop_runtime a runtime =
     StopWhenIdle runtime #
       (case stop_outcome a of None \<Rightarrow> [] | Some e \<Rightarrow> [ShutdownErrorLogged e])"

text \<open>
  The body of the loop for the runtime created in this pass. \<open>Inl\<close>: the function is left
  with this outcome. \<open>Inr e\<close>: the handler of the inner \<^verbatim>\<open>try\<close> recorded \<open>e\<close> as
  \<^verbatim>\<open>last_exception\<close>, counted the retry, and the loop goes on after the sleep.
  \<^verbatim>\<open>invoke\<close> stands in the outer \<^verbatim>\<open>try\<close>, which has a \<^verbatim>\<open>finally\<close> block and no handler.
\<close>

definition run_attempt ::
  "decoder \<Rightarrow> attempt \<Rightarrow> string \<Rightarrow> nat \<Rightarrow> (outcome + py_exn) \<times> event list" where
  "run_attempt loads a message_content runtime =
     (let started = [RuntimeCreated runtime, RuntimeStarted runtime,
                     Invoked message_content runtime]
      in case invoke_outcome a of
           Inl e \<Rightarrow> (Inl (Raised e), started @ stop_runtime a runtime)
         | Inr _ \<Rightarrow>
             (case await_result loads a of
                Inr v \<Rightarrow>
                  (Inl (Returned v), started @ [ResultAwaited runtime] @ stop_runtime a runtime)
              | Inl e \<Rightarrow>
                  (Inr e, started @ [ResultAwaited runtime, ExceptionLogged e]
                            @ stop_runtime a runtime @ [Slept])))"

text \<open>
  The loop, with its variables \<^verbatim>\<open>retry_count\<close> and \<^verbatim>\<open>last_exception\<close>; \<open>fresh\<close> counts the
  runtimes created so far and names the next one.
\<close>

function process_message_loop ::
  "decoder \<Rightarrow> world \<Rightarrow> int \<Rightarrow> string \<Rightarrow> int \<Rightarrow> py_exn option \<Rightarrow> nat \<Rightarrow> outcome \<times> event list" where
  "process_message_loop loads w max_retries message_content retry_count last_exception fresh =
     (if retry_count < max_retries then
        (case run_attempt loads (w fresh) message_content fresh of
           (Inl out, evs) \<Rightarrow> (out, evs)
         | (Inr e, evs) \<Rightarrow>
             (case process_message_loop loads w max_retries message_content
                     (retry_count + 1) (Some e) (Suc fresh) of
                (out, evs') \<Rightarrow> (out, evs @ evs')))
      else
        (case last_exception of
           Some e \<Rightarrow> (ReturnedError e, [])
         | None \<Rightarrow> (ReturnedNone, [])))"
  by pat_completeness auto
termination
  by (relation "measure (\<lambda>(loads, w, max_retries, message_content, retry_count, last_exception, fresh).
        nat (max_retries - retry_count))") auto

declare process_message_loop.simps [simp del]

definition process_message :: "decoder \<Rightarrow> world \<Rightarrow> int \<Rightarrow> string \<Rightarrow> outcome \<times> event list" where
  "process_message loads w max_retries message_content =
     process_message_loop loads w max_retries message_content 0 None 0"

section \<open>The vocabulary of the specification\<close>



text \<open>
  A flag of an envelope is set when the decoded \<^verbatim>\<open>dict\<close> holds the text \<^verbatim>\<open>"True"\<close> under
  its key: the agents are told to write \<^verbatim>\<open>'terminated': 'True'\<close> and
  \<^verbatim>\<open>'need_more_info': <'True' or 'False'>\<close>.
\<close>

fun carries_flag :: "json \<Rightarrow> string \<Rightarrow> bool" where
  "carries_flag (JObject kv) k = (map_of kv k = Some (JString ''True''))"
| "carries_flag _ k = False"

text \<open>The decoder returns a value on the text, or refuses it with \<^verbatim>\<open>JSONDecodeError\<close>.\<close>

definition decides :: "decoder \<Rightarrow> string \<Rightarrow> bool" where
  "decides loads c = (case loads c of Inl e \<Rightarrow> e = JSONDecodeError | Inr v \<Rightarrow> True)"

text \<open>The calls of \<^verbatim>\<open>invoke\<close> and the runtimes created, read off the events.\<close>

fun invocations :: "event list \<Rightarrow> (string \<times> nat) list" where
  "invocations [] = []"
| "invocations (Invoked t r # evs) = (t, r) # invocations evs"
| "invocations (_ # evs) = invocations evs"

fun created :: "event list \<Rightarrow> nat list" where
  "created [] = []"
| "created (RuntimeCreated r # evs) = r # created evs"
| "created (_ # evs) = created evs"

fun is_shutdown_log :: "event \<Rightarrow> bool" where
  "is_shutdown_log (ShutdownErrorLogged e) = True"
| "is_shutdown_log _ = False"

text \<open>The same world with every \<^verbatim>\<open>stop_when_idle\<close> returning.\<close>

definition quiet :: "world \<Rightarrow> world" where
  "quiet w = (\<lambda>r. (w r)\<lparr>stop_outcome := None\<rparr>)"

text \<open>
  The attempt on runtime \<open>k\<close> fails when its pass ends in the handler of the inner
  \<^verbatim>\<open>try\<close>; the attempts of a run are the runtimes it creates.
\<close>

definition failed :: "decoder \<Rightarrow> world \<Rightarrow> string \<Rightarrow> nat \<Rightarrow> bool" where
  "failed loads w message_content k =
     (case fst (run_attempt loads (w k) message_content k) of
        Inl out \<Rightarrow> False
      | Inr e \<Rightarrow> True)"

definition attempts :: "decoder \<Rightarrow> world \<Rightarrow> int \<Rightarrow> string \<Rightarrow> nat" where
  "attempts loads w max_retries message_content =
     length (created (snd (process_message loads w max_retries message_content)))"

section \<open>Properties\<close>

subsection \<open>Shared facts\<close>

lemma last_message_of_snoc [simp]: "last_message_of (h @ [m]) = Some m"
  by (simp add: last_message_of_def)

lemma StringResult_simps [simp]:
  "StringResult None = Inl ValidationError" "StringResult (Some a) = Inr a"
  by (simp_all add: StringResult_def)

lemma next_agent_string:
  "next_agent ps (JString x) = (if x \<in> set (keys ps) then Some x else None)"
  by (induction ps) (auto simp: next_agent_def keys_def)

lemma next_agent_not_string:
  "(\<And>x. v \<noteq> JString x) \<Longrightarrow> next_agent ps v = None"
  by (auto simp: next_agent_def find_None_iff)

lemma format_agent_response_decides:
  "decides loads (content m) \<Longrightarrow> format_agent_response loads (Some m) = Inr (content m)"
  by (auto simp: format_agent_response_def decides_def split: sum.splits)

lemma select_next_agent_snoc:
  "decides loads (content m) \<Longrightarrow>
   select_next_agent loads (h @ [m]) ps =
     (if role m = USER then select_after_user (h @ [m]) ps
      else if name m = Some ''TriageAgent'' then select_after_triage loads m ps
      else if name m = Some ''HeadSupportAgent'' then select_after_head loads m ps
      else Inl ValidationError)"
  by (simp add: select_next_agent_def format_agent_response_decides)


lemma select_next_agent_empty: "select_next_agent loads [] ps = Inl AttributeError"
  by (simp add: select_next_agent_def format_agent_response_def last_message_of_def)

lemma should_terminate_rejected:
  "loads (content m) = Inl JSONDecodeError \<Longrightarrow> should_terminate loads (h @ [m]) = Inr False"
  by (simp add: should_terminate_def)

lemma should_terminate_decoder_raises:
  "loads (content m) = Inl e \<Longrightarrow> e \<noteq> JSONDecodeError \<Longrightarrow>
   should_terminate loads (h @ [m]) = Inl e"
  by (simp add: should_terminate_def)

lemma should_terminate_dict:
  "loads (content m) = Inr (JObject kv) \<Longrightarrow>
   should_terminate loads (h @ [m]) =
     Inr (carries_flag (JObject kv) ''terminated'' \<or> carries_flag (JObject kv) ''need_more_info'')"
  by (auto simp: should_terminate_def py_eq_str_def split: option.splits)

lemma should_terminate_not_dict:
  "loads (content m) = Inr v \<Longrightarrow> (\<And>kv. v \<noteq> JObject kv) \<Longrightarrow>
   should_terminate loads (h @ [m]) = Inl AttributeError"
  by (cases v) (auto simp: should_terminate_def)

lemma head_support_known_target:
  "role m \<noteq> USER \<Longrightarrow> name m = Some ''HeadSupportAgent'' \<Longrightarrow>
   loads (content m) = Inr (JObject kv) \<Longrightarrow> map_of kv ''target_agent'' = Some (JString x) \<Longrightarrow>
   x \<in> set (keys ps) \<Longrightarrow> select_next_agent loads (h @ [m]) ps = Inr x"
  by (simp add: select_next_agent_snoc decides_def select_after_head_def head_try_def
      next_agent_string)

lemma follow_up_known_author:
  "2 \<le> length h \<Longrightarrow> role (last h) = USER \<Longrightarrow> decides loads (content (last h)) \<Longrightarrow>
   name (h ! (length h - 2)) = Some a \<Longrightarrow> a \<noteq> [] \<Longrightarrow> a \<in> set (keys ps) \<Longrightarrow>
   select_next_agent loads h ps = Inr a"
proof -
  assume len: "2 \<le> length h" and r: "role (last h) = USER"
    and d: "decides loads (content (last h))"
    and n: "name (h ! (length h - 2)) = Some a" "a \<noteq> []" "a \<in> set (keys ps)"
  from len have "h \<noteq> []" by auto
  then obtain h' m where h: "h = h' @ [m]" by (cases h rule: rev_cases) auto
  from len h have l: "length (h' @ [m]) \<noteq> 1" "length (h' @ [m]) > 1" by auto
  from r d n show ?thesis
    unfolding h using l
    by (simp add: select_next_agent_snoc select_after_user_def Let_def del: length_append)
qed



lemma invocations_append: "invocations (xs @ ys) = invocations xs @ invocations ys"
  by (induction xs rule: invocations.induct) simp_all

lemma created_append: "created (xs @ ys) = created xs @ created ys"
  by (induction xs rule: created.induct) simp_all

lemma stop_runtime_plain:
  "invocations (stop_runtime a r) = []" "created (stop_runtime a r) = []"
  "count_list (stop_runtime a r) (StopWhenIdle r') = (if r' = r then 1 else 0)"
  by (auto simp: stop_runtime_def split: option.splits)

lemma run_attempt_invocations:
  "invocations (snd (run_attempt loads a msg r)) = [(msg, r)]"
  by (simp add: run_attempt_def Let_def invocations_append stop_runtime_plain split: sum.splits)

lemma run_attempt_created:
  "created (snd (run_attempt loads a msg r)) = [r]"
  by (simp add: run_attempt_def Let_def created_append stop_runtime_plain split: sum.splits)

lemma run_attempt_stops:
  "count_list (snd (run_attempt loads a msg r)) (StopWhenIdle r') = (if r' = r then 1 else 0)"
  by (simp add: run_attempt_def Let_def stop_runtime_plain split: sum.splits)

lemma stop_runtime_quiet:
  "filter (\<lambda>e. \<not> is_shutdown_log e) (stop_runtime a r) = stop_runtime (a\<lparr>stop_outcome := None\<rparr>) r"
  by (simp add: stop_runtime_def split: option.splits)

lemma run_attempt_quiet:
  "fst (run_attempt loads (a\<lparr>stop_outcome := None\<rparr>) msg r) = fst (run_attempt loads a msg r)"
  "snd (run_attempt loads (a\<lparr>stop_outcome := None\<rparr>) msg r) =
     filter (\<lambda>e. \<not> is_shutdown_log e) (snd (run_attempt loads a msg r))"
proof -
  have aw: "await_result loads (a\<lparr>stop_outcome := None\<rparr>) = await_result loads a"
    by (simp add: await_result_def)
  show "fst (run_attempt loads (a\<lparr>stop_outcome := None\<rparr>) msg r) = fst (run_attempt loads a msg r)"
    by (simp add: run_attempt_def Let_def aw split: sum.splits)
  show "snd (run_attempt loads (a\<lparr>stop_outcome := None\<rparr>) msg r) =
     filter (\<lambda>e. \<not> is_shutdown_log e) (snd (run_attempt loads a msg r))"
    by (simp add: run_attempt_def Let_def aw stop_runtime_quiet split: sum.splits)
qed

lemma loop_unfold_go:
  "rc < mr \<Longrightarrow> run_attempt loads (w fr) msg fr = (Inr e, evs) \<Longrightarrow>
   process_message_loop loads w mr msg rc le fr =
     (fst (process_message_loop loads w mr msg (rc + 1) (Some e) (Suc fr)),
      evs @ snd (process_message_loop loads w mr msg (rc + 1) (Some e) (Suc fr)))"
  by (subst process_message_loop.simps) (simp split: prod.splits)

lemma loop_unfold_leave:
  "rc < mr \<Longrightarrow> run_attempt loads (w fr) msg fr = (Inl out, evs) \<Longrightarrow>
   process_message_loop loads w mr msg rc le fr = (out, evs)"
  by (subst process_message_loop.simps) simp

lemma loop_unfold_end:
  "\<not> rc < mr \<Longrightarrow>
   process_message_loop loads w mr msg rc le fr =
     (case le of Some e \<Rightarrow> (ReturnedError e, []) | None \<Rightarrow> (ReturnedNone, []))"
  by (subst process_message_loop.simps) simp

lemma loop_trace:
  "\<exists>n. int n \<le> max 0 (mr - rc) \<and>
       invocations (snd (process_message_loop loads w mr msg rc le fr)) = map (Pair msg) [fr..<fr + n] \<and>
       created (snd (process_message_loop loads w mr msg rc le fr)) = [fr..<fr + n] \<and>
       snd (process_message_loop loads w mr msg rc le fr) =
         concat (map (\<lambda>k. snd (run_attempt loads (w k) msg k)) [fr..<fr + n])"
proof (induction loads w mr msg rc le fr rule: process_message_loop.induct)
  case (1 loads w mr msg rc le fr)
  show ?case
  proof (cases "rc < mr")
    case False
    then show ?thesis
      by (intro exI [of _ 0]) (simp add: loop_unfold_end split: option.splits)
  next
    case True
    obtain res evs where ra: "run_attempt loads (w fr) msg fr = (res, evs)"
      by (cases "run_attempt loads (w fr) msg fr")
    have inv: "invocations evs = [(msg, fr)]" and cr: "created evs = [fr]"
      using run_attempt_invocations [of loads "w fr" msg fr]
        run_attempt_created [of loads "w fr" msg fr] ra by simp_all
    show ?thesis
    proof (cases res)
      case (Inl out)
      with True ra inv cr show ?thesis
        by (intro exI [of _ 1]) (simp add: loop_unfold_leave)
    next
      case (Inr e)
      from "1.IH" [OF True ra [symmetric, unfolded Inr] refl] Inr ra
      obtain n where n: "int n \<le> max 0 (mr - (rc + 1))"
        "invocations (snd (process_message_loop loads w mr msg (rc + 1) (Some e) (Suc fr))) =
           map (Pair msg) [Suc fr..<Suc fr + n]"
        "created (snd (process_message_loop loads w mr msg (rc + 1) (Some e) (Suc fr))) =
           [Suc fr..<Suc fr + n]"
        "snd (process_message_loop loads w mr msg (rc + 1) (Some e) (Suc fr)) =
           concat (map (\<lambda>k. snd (run_attempt loads (w k) msg k)) [Suc fr..<Suc fr + n])"
        by blast
      have up: "[fr..<fr + Suc n] = fr # [Suc fr..<Suc fr + n]"
        by (simp add: upt_rec)
      from True n(1) have b: "int (Suc n) \<le> max 0 (mr - rc)" by simp
      show ?thesis
        apply (rule exI [of _ "Suc n"])
        using b True ra Inr inv cr n(2,3,4) up
        by (simp add: loop_unfold_go invocations_append created_append del: upt_Suc)
    qed
  qed
qed

lemma loop_attempts:
  "\<exists>n. created (snd (process_message_loop loads w mr msg rc le fr)) = [fr..<fr + n] \<and>
       (\<forall>k. fr \<le> k \<and> Suc k < fr + n \<longrightarrow> failed loads w msg k) \<and>
       (n = nat (mr - rc) \<or> (0 < n \<and> \<not> failed loads w msg (fr + n - 1)))"
proof (induction loads w mr msg rc le fr rule: process_message_loop.induct)
  case (1 loads w mr msg rc le fr)
  show ?case
  proof (cases "rc < mr")
    case False
    then show ?thesis
      by (intro exI [of _ 0]) (auto simp: loop_unfold_end split: option.splits)
  next
    case True
    obtain res evs where ra: "run_attempt loads (w fr) msg fr = (res, evs)"
      by (cases "run_attempt loads (w fr) msg fr")
    have cr: "created evs = [fr]"
      using run_attempt_created [of loads "w fr" msg fr] ra by simp
    show ?thesis
    proof (cases res)
      case (Inl out)
      with ra have nf: "\<not> failed loads w msg fr" by (simp add: failed_def)
      from True ra Inl cr nf show ?thesis
        by (intro exI [of _ 1]) (auto simp: loop_unfold_leave)
    next
      case (Inr e)
      with ra have f: "failed loads w msg fr" by (simp add: failed_def)
      from "1.IH" [OF True ra [symmetric, unfolded Inr] refl]
      obtain n where n:
        "created (snd (process_message_loop loads w mr msg (rc + 1) (Some e) (Suc fr))) =
           [Suc fr..<Suc fr + n]"
        "\<forall>k. Suc fr \<le> k \<and> Suc k < Suc fr + n \<longrightarrow> failed loads w msg k"
        "n = nat (mr - (rc + 1)) \<or> (0 < n \<and> \<not> failed loads w msg (Suc fr + n - 1))"
        by blast
      have up: "[fr..<fr + Suc n] = fr # [Suc fr..<Suc fr + n]"
        by (simp add: upt_rec)
      have a: "created (snd (process_message_loop loads w mr msg rc le fr)) = [fr..<fr + Suc n]"
        using True ra Inr cr n(1) up
        by (simp add: loop_unfold_go created_append del: upt_Suc)
      have b: "\<forall>k. fr \<le> k \<and> Suc k < fr + Suc n \<longrightarrow> failed loads w msg k"
      proof (intro allI impI)
        fix k assume k: "fr \<le> k \<and> Suc k < fr + Suc n"
        show "failed loads w msg k"
        proof (cases "k = fr")
          case True
          with f show ?thesis by simp
        next
          case False
          with k have "Suc fr \<le> k \<and> Suc k < Suc fr + n" by simp
          with n(2) show ?thesis by blast
        qed
      qed
      have c: "Suc n = nat (mr - rc) \<or> (0 < Suc n \<and> \<not> failed loads w msg (fr + Suc n - 1))"
        using n(3) True by (auto simp: nat_diff_distrib)
      from a b c show ?thesis by blast
    qed
  qed
qed

lemma loop_stops:
  "count_list (snd (process_message_loop loads w mr msg rc le fr)) (StopWhenIdle r) =
   count_list (created (snd (process_message_loop loads w mr msg rc le fr))) r"
proof (induction loads w mr msg rc le fr rule: process_message_loop.induct)
  case (1 loads w mr msg rc le fr)
  show ?case
  proof (cases "rc < mr")
    case False
    then show ?thesis by (simp add: loop_unfold_end split: option.splits)
  next
    case True
    obtain res evs where ra: "run_attempt loads (w fr) msg fr = (res, evs)"
      by (cases "run_attempt loads (w fr) msg fr")
    have st: "count_list evs (StopWhenIdle r) = (if r = fr then 1 else 0)" and cr: "created evs = [fr]"
      using run_attempt_stops [of loads "w fr" msg fr r]
        run_attempt_created [of loads "w fr" msg fr] ra by simp_all
    show ?thesis
    proof (cases res)
      case (Inl out)
      with True ra st cr show ?thesis by (simp add: loop_unfold_leave)
    next
      case (Inr e)
      from "1.IH" [OF True ra [symmetric, unfolded Inr] refl] True ra Inr st cr
      show ?thesis by (simp add: loop_unfold_go created_append)
    qed
  qed
qed

lemma loop_quiet:
  "fst (process_message_loop loads (quiet w) mr msg rc le fr) =
     fst (process_message_loop loads w mr msg rc le fr) \<and>
   snd (process_message_loop loads (quiet w) mr msg rc le fr) =
     filter (\<lambda>e. \<not> is_shutdown_log e) (snd (process_message_loop loads w mr msg rc le fr))"
proof (induction loads w mr msg rc le fr rule: process_message_loop.induct)
  case (1 loads w mr msg rc le fr)
  show ?case
  proof (cases "rc < mr")
    case False
    then show ?thesis by (simp add: loop_unfold_end split: option.splits)
  next
    case True
    obtain res evs where ra: "run_attempt loads (w fr) msg fr = (res, evs)"
      by (cases "run_attempt loads (w fr) msg fr")
    have rq: "run_attempt loads (quiet w fr) msg fr = (res, filter (\<lambda>e. \<not> is_shutdown_log e) evs)"
      using run_attempt_quiet [of loads "w fr" msg fr] ra
      by (simp add: quiet_def prod_eq_iff)
    show ?thesis
    proof (cases res)
      case (Inl out)
      with True ra rq show ?thesis by (simp add: loop_unfold_leave)
    next
      case (Inr e)
      from "1.IH" [OF True ra [symmetric, unfolded Inr] refl] True ra rq Inr
      show ?thesis by (simp add: loop_unfold_go)
    qed
  qed
qed

lemma count_list_distinct:
  "distinct xs \<Longrightarrow> count_list xs x = (if x \<in> set xs then 1 else 0)"
  by (induction xs) auto

lemma process_message_returns_when_invoke_returns:
  "(\<And>k. invoke_outcome (w k) = Inr ()) \<Longrightarrow>
   fst (process_message_loop loads w mr msg rc le fr) \<noteq> Raised x"
proof (induction loads w mr msg rc le fr rule: process_message_loop.induct)
  case (1 loads w mr msg rc le fr)
  show ?case
  proof (cases "rc < mr")
    case False
    then show ?thesis by (simp add: loop_unfold_end split: option.splits)
  next
    case True
    obtain res evs where ra: "run_attempt loads (w fr) msg fr = (res, evs)"
      by (cases "run_attempt loads (w fr) msg fr")
    show ?thesis
    proof (cases res)
      case (Inl out)
      from ra Inl "1.prems" [of fr] have "out \<noteq> Raised x"
        by (auto simp: run_attempt_def Let_def split: sum.splits)
      with True ra Inl show ?thesis by (simp add: loop_unfold_leave)
    next
      case (Inr e)
      from "1.IH" [OF True ra [symmetric, unfolded Inr] refl "1.prems"] True ra Inr
      show ?thesis by (simp add: loop_unfold_go)
    qed
  qed
qed

text \<open>
  When \<^verbatim>\<open>invoke\<close> returns at every attempt and every attempt fails, the function
  returns the error result built from the failure of the last attempt.
\<close>

lemma process_message_loop_exhausted:
  "(\<And>k. invoke_outcome (w k) = Inr ()) \<Longrightarrow> (\<And>k. await_result loads (w k) = Inl (f k)) \<Longrightarrow>
   fst (process_message_loop loads w mr msg rc le fr) =
     (if rc < mr then ReturnedError (f (fr + nat (mr - rc) - 1))
      else case le of Some e \<Rightarrow> ReturnedError e | None \<Rightarrow> ReturnedNone)"
proof (induction loads w mr msg rc le fr rule: process_message_loop.induct)
  case (1 loads w mr msg rc le fr)
  show ?case
  proof (cases "rc < mr")
    case False
    then show ?thesis by (simp add: loop_unfold_end split: option.splits)
  next
    case True
    obtain evs where ra: "run_attempt loads (w fr) msg fr = (Inr (f fr), evs)"
      using "1.prems" (1) [of fr] "1.prems" (2) [of fr]
      by (simp add: run_attempt_def Let_def)
    have ih: "fst (process_message_loop loads w mr msg (rc + 1) (Some (f fr)) (Suc fr)) =
        (if rc + 1 < mr then ReturnedError (f (Suc fr + nat (mr - (rc + 1)) - 1))
         else ReturnedError (f fr))"
      using "1.IH" [OF True ra [symmetric] refl "1.prems"] by simp
    have idx: "rc + 1 < mr \<Longrightarrow> Suc fr + nat (mr - (rc + 1)) - 1 = fr + nat (mr - rc) - 1"
      by (simp add: nat_diff_distrib)
    from True have last: "\<not> rc + 1 < mr \<Longrightarrow> fr + nat (mr - rc) - 1 = fr"
      by simp
    show ?thesis
      using True ra ih idx last by (simp add: loop_unfold_go)
  qed
qed

lemma process_message_exhausted:
  "(\<And>k. invoke_outcome (w k) = Inr ()) \<Longrightarrow> (\<And>k. await_result loads (w k) = Inl (f k)) \<Longrightarrow>
   0 < max_retries \<Longrightarrow>
   fst (process_message loads w max_retries message_content) =
     ReturnedError (f (nat max_retries - 1))"
  using process_message_loop_exhausted [of w loads f max_retries message_content 0 None 0]
  by (simp add: process_message_def)

subsection \<open>Termination policy\<close>

text \<open>
  C2. Claimed: for every last message \<open>should_terminate\<close> returns true or false, false on
  content it cannot read as an envelope. On a reply that is a JSON string, which
  \<^verbatim>\<open>json.loads\<close> decodes to a \<^verbatim>\<open>str\<close>, it returns neither: the \<^verbatim>\<open>AttributeError\<close> of
  \<^verbatim>\<open>.get\<close> passes the handler, which names \<^verbatim>\<open>json.JSONDecodeError\<close> only.
\<close>

theorem should_terminate_raises_on_text:
  \<open>should_terminate json_loads
     [\<lparr>role = USER, name = None, content = ''Where is my order?''\<rparr>,
      \<lparr>role = ASSISTANT, name = Some ''OrderStatusAgent'',
       content = ''"Please provide your order number."''\<rparr>] = Inl AttributeError\<close>
  by code_simp

text \<open>
  C3. Claimed: evaluating \<open>should_terminate\<close> on any content never raises. On the reply
  \<^verbatim>\<open>[]\<close>, a JSON document that is not an object, \<open>should_terminate\<close> leaves with
  \<^verbatim>\<open>AttributeError\<close>.
\<close>

theorem should_terminate_raises_on_array:
  "should_terminate json_loads
     [\<lparr>role = USER, name = None, content = ''Where is my order?''\<rparr>,
      \<lparr>role = ASSISTANT, name = Some ''TriageAgent'', content = ''[]''\<rparr>] = Inl AttributeError"
  by code_simp

subsection \<open>Routing\<close>







text \<open>
  C6. Claimed: \<open>select_next_agent\<close> returns \<^verbatim>\<open>None\<close> when HeadSupportAgent names a target
  that is no participant, or no target. The code builds \<^verbatim>\<open>StringResult(result=None, ...)\<close>
  there, in the \<^verbatim>\<open>try\<close> block and again in its handler, and \<^verbatim>\<open>ValidationError\<close> leaves
  the method.
\<close>

theorem head_support_unknown_target_raises:
  \<open>select_next_agent json_loads
     [\<lparr>role = USER, name = None, content = ''Cancel order 1234''\<rparr>,
      \<lparr>role = ASSISTANT, name = Some ''HeadSupportAgent'',
       content = ''{"target_agent": "BillingAgent", "terminated": "False"}''\<rparr>]
     [(''TriageAgent'', ''triage''), (''HeadSupportAgent'', ''routes''), (''OrderCancelAgent'', ''cancel'')]
     = Inl ValidationError \<and>
   select_next_agent json_loads
     [\<lparr>role = USER, name = None, content = ''Cancel order 1234''\<rparr>,
      \<lparr>role = ASSISTANT, name = Some ''HeadSupportAgent'',
       content = ''{"terminated": "False"}''\<rparr>]
     [(''TriageAgent'', ''triage''), (''HeadSupportAgent'', ''routes''), (''OrderCancelAgent'', ''cancel'')]
     = Inl ValidationError\<close>
  by code_simp

text \<open>
  C7. Claimed: after a follow-up of the user, \<open>select_next_agent\<close> returns \<^verbatim>\<open>None\<close> when
  the message before it names no participant. The code builds
  \<^verbatim>\<open>StringResult(result=None, ...)\<close> there and \<^verbatim>\<open>ValidationError\<close> leaves the method.
\<close>

theorem follow_up_unknown_author_raises:
  \<open>select_next_agent json_loads
     [\<lparr>role = USER, name = None, content = ''Where is my order?''\<rparr>,
      \<lparr>role = ASSISTANT, name = Some ''OrderStatusAgent'',
       content = ''{"response": "Which order?", "terminated": "True", "need_more_info": "True"}''\<rparr>,
      \<lparr>role = USER, name = None, content = ''Order 1234''\<rparr>]
     [(''TriageAgent'', ''triage''), (''HeadSupportAgent'', ''routes''), (''OrderCancelAgent'', ''cancel'')]
     = Inl ValidationError \<and>
   select_next_agent json_loads
     [\<lparr>role = USER, name = None, content = ''Where is my order?''\<rparr>,
      \<lparr>role = USER, name = None, content = ''Order 1234''\<rparr>]
     [(''TriageAgent'', ''triage''), (''HeadSupportAgent'', ''routes''), (''OrderStatusAgent'', ''status'')]
     = Inl ValidationError\<close>
  by code_simp

subsection \<open>Retries\<close>

text \<open>
  C1. Claimed: \<open>process_message\<close> never raises to its caller and returns an error result
  when every attempt failed. When \<^verbatim>\<open>self.orchestration.invoke\<close> raises, the exception
  leaves \<open>process_message\<close> after the \<^verbatim>\<open>finally\<close> block, at the first attempt, and no retry
  is made; with \<^verbatim>\<open>max_retries = 0\<close> the function returns \<^verbatim>\<open>None\<close>.
\<close>

theorem process_message_raises_when_invoke_raises:
  "process_message json_loads
     (\<lambda>k. \<lparr>invoke_outcome = Inl AttributeError, get_outcome = Inl TimeoutError,
            stop_outcome = None\<rparr>)
     3 ''Where is my order?'' =
     (Raised AttributeError,
      [RuntimeCreated 0, RuntimeStarted 0, Invoked ''Where is my order?'' 0, StopWhenIdle 0]) \<and>
   process_message json_loads
     (\<lambda>k. \<lparr>invoke_outcome = Inr (), get_outcome = Inl TimeoutError, stop_outcome = None\<rparr>)
     0 ''Where is my order?'' = (ReturnedNone, [])"
  by code_simp

text \<open>
  C8. In every run, \<^verbatim>\<open>stop_when_idle\<close> is called exactly once on each runtime created and
  on no other; and a run in which \<^verbatim>\<open>stop_when_idle\<close> raises ends as the run in which it
  returns does, with the same events but for the lines printed about the shutdown.
\<close>

theorem teardown_once_and_swallowed:
  "count_list (snd (process_message loads w max_retries message_content)) (StopWhenIdle r) =
     (if r \<in> set (created (snd (process_message loads w max_retries message_content))) then 1 else 0) \<and>
   fst (process_message loads (quiet w) max_retries message_content) =
     fst (process_message loads w max_retries message_content) \<and>
   snd (process_message loads (quiet w) max_retries message_content) =
     filter (\<lambda>e. \<not> is_shutdown_log e) (snd (process_message loads w max_retries message_content))"
proof -
  obtain n where "created (snd (process_message loads w max_retries message_content)) = [0..<n]"
    using loop_trace [of max_retries 0 loads w message_content None 0]
    by (auto simp: process_message_def)
  then have "distinct (created (snd (process_message loads w max_retries message_content)))"
    by simp
  then have "count_list (created (snd (process_message loads w max_retries message_content))) r =
     (if r \<in> set (created (snd (process_message loads w max_retries message_content))) then 1 else 0)"
    by (rule count_list_distinct)
  then show ?thesis
    using loop_stops [of loads w max_retries message_content 0 None 0 r]
      loop_quiet [of loads w max_retries message_content 0 None 0]
    by (simp add: process_message_def)
qed

text \<open>
  C8 on a run whose first attempt times out and whose shutdown raises, and whose second
  attempt answers.
\<close>

theorem teardown_once_and_swallowed_witness:
  \<open>count_list (snd (process_message json_loads
       (\<lambda>k. if k = 0 then \<lparr>invoke_outcome = Inr (), get_outcome = Inl TimeoutError,
                             stop_outcome = Some (OtherError ''shutdown failed'')\<rparr>
             else \<lparr>invoke_outcome = Inr (),
                   get_outcome = Inr ''{"response": "Order 1234 cancelled.", "terminated": "True"}'',
                   stop_outcome = Some (OtherError ''shutdown failed'')\<rparr>)
       3 ''Cancel order 1234'')) (StopWhenIdle 1) = 1 \<and>
   fst (process_message json_loads
       (quiet (\<lambda>k. if k = 0 then \<lparr>invoke_outcome = Inr (), get_outcome = Inl TimeoutError,
                             stop_outcome = Some (OtherError ''shutdown failed'')\<rparr>
             else \<lparr>invoke_outcome = Inr (),
                   get_outcome = Inr ''{"response": "Order 1234 cancelled.", "terminated": "True"}'',
                   stop_outcome = Some (OtherError ''shutdown failed'')\<rparr>))
       3 ''Cancel order 1234'') = Returned (JString ''Order 1234 cancelled.'')\<close>
proof -
  let ?w = \<open>\<lambda>k::nat. if k = 0 then \<lparr>invoke_outcome = Inr (), get_outcome = Inl TimeoutError,
                             stop_outcome = Some (OtherError ''shutdown failed'')\<rparr>
             else \<lparr>invoke_outcome = Inr (),
                   get_outcome = Inr ''{"response": "Order 1234 cancelled.", "terminated": "True"}'',
                   stop_outcome = Some (OtherError ''shutdown failed'')\<rparr>\<close>
  have c: "1 \<in> set (created (snd (process_message json_loads ?w 3 ''Cancel order 1234'')))"
    by code_simp
  have f: "fst (process_message json_loads ?w 3 ''Cancel order 1234'') =
      Returned (JString ''Order 1234 cancelled.'')"
    by code_simp
  from teardown_once_and_swallowed [of json_loads ?w 3 "''Cancel order 1234''" 1] c f
  show ?thesis by simp
qed

text \<open>
  C9. A run makes \<open>attempts\<close> attempts, on the runtimes 0, 1, ... in this order, and its
  calls of \<^verbatim>\<open>invoke\<close> are exactly these: the original message with runtime 0, the
  original message with runtime 1, and so on, each with the runtime created in its own
  pass. The run is the sequence of these passes, each a function of the message and its
  own runtime alone. There are at most \<^verbatim>\<open>max_retries\<close> attempts, and at least one when
  \<^verbatim>\<open>max_retries\<close> is positive; every attempt but the last has failed; and an attempt that
  fails with retries left is followed by the next attempt.
\<close>

theorem every_attempt_restarts_from_the_message:
  "invocations (snd (process_message loads w max_retries message_content)) =
     map (Pair message_content) [0..<attempts loads w max_retries message_content] \<and>
   created (snd (process_message loads w max_retries message_content)) =
     [0..<attempts loads w max_retries message_content] \<and>
   snd (process_message loads w max_retries message_content) =
     concat (map (\<lambda>k. snd (run_attempt loads (w k) message_content k))
       [0..<attempts loads w max_retries message_content]) \<and>
   int (attempts loads w max_retries message_content) \<le> max 0 max_retries \<and>
   (0 < max_retries \<longrightarrow> 0 < attempts loads w max_retries message_content) \<and>
   (\<forall>k. Suc k < attempts loads w max_retries message_content \<longrightarrow>
      failed loads w message_content k) \<and>
   (\<forall>k. k < attempts loads w max_retries message_content \<and> failed loads w message_content k \<and>
      int (Suc k) < max_retries \<longrightarrow> Suc k < attempts loads w max_retries message_content)"
proof -
  let ?evs = "snd (process_message loads w max_retries message_content)"
  let ?n = "attempts loads w max_retries message_content"
  obtain n where n: "int n \<le> max 0 max_retries"
    "invocations ?evs = map (Pair message_content) [0..<n]"
    "created ?evs = [0..<n]"
    "?evs = concat (map (\<lambda>k. snd (run_attempt loads (w k) message_content k)) [0..<n])"
    using loop_trace [of max_retries 0 loads w message_content None 0]
    by (auto simp: process_message_def)
  from n(3) have nn: "?n = n" by (simp add: attempts_def)
  obtain n' where n': "created ?evs = [0..<n']"
    "\<forall>k. Suc k < n' \<longrightarrow> failed loads w message_content k"
    "n' = nat max_retries \<or> (0 < n' \<and> \<not> failed loads w message_content (n' - 1))"
    using loop_attempts [of loads w max_retries message_content 0 None 0]
    by (auto simp: process_message_def)
  from n'(1) have nn': "?n = n'" by (simp add: attempts_def)
  have low: "0 < max_retries \<longrightarrow> 0 < ?n"
    using n'(3) nn' by auto
  have next_one: "\<forall>k. k < ?n \<and> failed loads w message_content k \<and> int (Suc k) < max_retries
      \<longrightarrow> Suc k < ?n"
  proof (intro allI impI)
    fix k
    assume k: "k < ?n \<and> failed loads w message_content k \<and> int (Suc k) < max_retries"
    show "Suc k < ?n"
    proof (rule ccontr)
      assume "\<not> Suc k < ?n"
      with k have e: "?n = Suc k" by simp
      from n'(3) show False
      proof
        assume "n' = nat max_retries"
        with e nn' k show False by linarith
      next
        assume "0 < n' \<and> \<not> failed loads w message_content (n' - 1)"
        with e nn' k show False by simp
      qed
    qed
  qed
  from n n'(2) nn nn' low next_one show ?thesis by simp
qed

text \<open>
  C9 on a run of three attempts: two time out, the third answers. Each is invoked
  with the original message and its own runtime.
\<close>

theorem every_attempt_restarts_from_the_message_witness:
  \<open>failed json_loads
     (\<lambda>k. if k < 2 then \<lparr>invoke_outcome = Inr (), get_outcome = Inl TimeoutError,
                          stop_outcome = None\<rparr>
           else \<lparr>invoke_outcome = Inr (),
                 get_outcome = Inr ''{"response": "Order 1234 cancelled.", "terminated": "True"}'',
                 stop_outcome = None\<rparr>)
     ''Cancel order 1234'' 0 \<and>
   attempts json_loads
     (\<lambda>k. if k < 2 then \<lparr>invoke_outcome = Inr (), get_outcome = Inl TimeoutError,
                          stop_outcome = None\<rparr>
           else \<lparr>invoke_outcome = Inr (),
                 get_outcome = Inr ''{"response": "Order 1234 cancelled.", "terminated": "True"}'',
                 stop_outcome = None\<rparr>)
     3 ''Cancel order 1234'' = 3 \<and>
   invocations (snd (process_message json_loads
     (\<lambda>k. if k < 2 then \<lparr>invoke_outcome = Inr (), get_outcome = Inl TimeoutError,
                          stop_outcome = None\<rparr>
           else \<lparr>invoke_outcome = Inr (),
                 get_outcome = Inr ''{"response": "Order 1234 cancelled.", "terminated": "True"}'',
                 stop_outcome = None\<rparr>)
     3 ''Cancel order 1234'')) =
     [(''Cancel order 1234'', 0), (''Cancel order 1234'', 1), (''Cancel order 1234'', 2)]\<close>
proof -
  let ?w = \<open>\<lambda>k::nat. if k < 2 then \<lparr>invoke_outcome = Inr (), get_outcome = Inl TimeoutError,
                          stop_outcome = None\<rparr>
           else \<lparr>invoke_outcome = Inr (),
                 get_outcome = Inr ''{"response": "Order 1234 cancelled.", "terminated": "True"}'',
                 stop_outcome = None\<rparr>\<close>
  let ?msg = "''Cancel order 1234''"
  let ?n = "attempts json_loads ?w 3 ?msg"
  note t = every_attempt_restarts_from_the_message [of json_loads ?w 3 ?msg]
  have f0: "failed json_loads ?w ?msg 0" by code_simp
  have f1: "failed json_loads ?w ?msg 1" by code_simp
  have f2: "\<not> failed json_loads ?w ?msg 2" by code_simp
  note t1 = t [THEN conjunct1]
  note t4 = t [THEN conjunct2, THEN conjunct2, THEN conjunct2, THEN conjunct1]
  note t5 = t [THEN conjunct2, THEN conjunct2, THEN conjunct2, THEN conjunct2, THEN conjunct1]
  note t7 = t [THEN conjunct2, THEN conjunct2, THEN conjunct2, THEN conjunct2,
      THEN conjunct2, THEN conjunct2]
  from t5 have pos: "0 < ?n" by simp
  from t7 have step: "\<And>k. k < ?n \<Longrightarrow> failed json_loads ?w ?msg k \<Longrightarrow> int (Suc k) < 3 \<Longrightarrow> Suc k < ?n"
    by blast
  from step [OF pos f0] have one: "1 < ?n" by simp
  from step [OF one f1] have two: "2 < ?n" by simp
  from t4 have "int ?n \<le> 3" by simp
  with two have n3: "?n = 3" by linarith
  have up: "map (Pair ?msg) [0..<3] = [(?msg, 0), (?msg, 1), (?msg, 2)]"
    by (simp add: upt_rec)
  from t1 have inv: "invocations (snd (process_message json_loads ?w 3 ?msg)) =
      [(?msg, 0), (?msg, 1), (?msg, 2)]"
    unfolding n3 up .
  from f0 n3 inv show ?thesis by (intro conjI)
qed

subsection \<open>Outcome of a run\<close>

text \<open>
  C10. The outcome of a run is the content of the last message of the history,
  unchanged; for the empty history it is the fixed text "No messages in chat history.".
\<close>

theorem filter_results_last:
  "content (result (filter_results (h @ [m]))) = content m \<and>
   content (result (filter_results [])) = ''No messages in chat history.''"
  by (simp add: filter_results_def)

end
